theory Spec2Isabelle
  imports Main "HOL-Library.Sublist"
begin

section \<open>The upload and query backend of the RAG application\<close>

text \<open>
  The program is \<^verbatim>\<open>src/backend/app.py\<close>: a module with two process-wide globals
  (\<^verbatim>\<open>API_KEY\<close> and \<^verbatim>\<open>session_state\<close>), the function \<^verbatim>\<open>setup_llama_index\<close> that
  builds a query engine with the document-indexing library, and the two request
  handlers \<^verbatim>\<open>upload_file\<close> and \<^verbatim>\<open>query\<close>.

  The embedding passes the globals explicitly, returns every exception as a value and
  collects the calls a function makes to the outside (the file system, the library,
  standard output) in a list of events, in the order the code makes them. What the
  outside answers to each call (an exception, or the data it returns) is a parameter of
  the model, the record \<open>world\<close>: the code is verified for every answer of the
  outside.
\<close>

subsection \<open>Exceptions\<close>

text \<open>
  Every exception the handlers meet derives from Python's \<^verbatim>\<open>Exception\<close>, the class the
  two \<^verbatim>\<open>except Exception\<close> clauses catch. The framework's \<^verbatim>\<open>HTTPException\<close> is one of
  them (it derives from \<^verbatim>\<open>Exception\<close>); it carries a status code and a detail. Any
  other exception is kept as the text \<^verbatim>\<open>str(e)\<close> gives for it.
\<close>

datatype exn = HTTPException nat string | Exception string

fun str_nat :: "nat \<Rightarrow> string" where
  "str_nat n =
     (if n < 10 then [''0123456789'' ! n]
      else str_nat (n div 10) @ [''0123456789'' ! (n mod 10)])"

declare str_nat.simps [simp del]

text \<open>
  \<^verbatim>\<open>str(e)\<close>. For an \<^verbatim>\<open>HTTPException\<close> the framework defines
  \<^verbatim>\<open>__str__\<close> as \<^verbatim>\<open>f"{self.status_code}: {self.detail}"\<close>.
\<close>

fun str_exn :: "exn \<Rightarrow> string" where
  "str_exn (HTTPException status_code detail) = str_nat status_code @ '': '' @ detail"
| "str_exn (Exception msg) = msg"

subsection \<open>Requests, responses and the objects of the library\<close>

type_synonym bytes = string

type_synonym document = string

record UploadFile =
  filename :: string

record QueryRequest =
  prompt :: string
  file_key :: string

datatype response = Id_response string | Message_response string

record SimpleDirectoryReader =
  input_dir :: string
  required_exts :: "string list"
  recursive :: bool

record Cohere =
  api_key :: "string option"
  model :: string

record CohereEmbedding =
  cohere_api_key :: "string option"
  model_name :: string
  input_type :: string

record CohereRerank =
  rerank_model :: string
  rerank_api_key :: "string option"

record VectorStoreIndex =
  index_documents :: "document list"
  index_embed_model :: "CohereEmbedding option"
  show_progress :: bool

text \<open>
  A query engine is the object \<^verbatim>\<open>index.as_query_engine\<close> returns: the index, the model
  it generates with, its options, and its dictionary of prompt templates, which
  \<^verbatim>\<open>update_prompts\<close> changes.
\<close>

record query_engine =
  engine_index :: VectorStoreIndex
  engine_llm :: "Cohere option"
  streaming :: bool
  node_postprocessors :: "CohereRerank list"
  prompts :: "string \<rightharpoonup> string"

subsection \<open>The globals of the module\<close>

text \<open>
  \<^verbatim>\<open>API_KEY\<close> (line 12), \<^verbatim>\<open>session_state\<close> (lines 43 to 46) with its two entries
  \<^verbatim>\<open>"id"\<close> and \<^verbatim>\<open>"file_cache"\<close>, and the library's global \<^verbatim>\<open>Settings\<close> object, of
  which the code assigns \<^verbatim>\<open>embed_model\<close> and \<^verbatim>\<open>llm\<close>.
\<close>

record state =
  API_KEY :: "string option"
  session_id :: string
  file_cache :: "string \<rightharpoonup> query_engine"
  Settings_embed_model :: "CohereEmbedding option"
  Settings_llm :: "Cohere option"

text \<open>
  The module's initialisation: \<^verbatim>\<open>"id": str(uuid4())\<close> and an empty cache. The token
  \<open>uuid\<close> and the environment's key are given from outside.
\<close>

definition session_state :: "string option \<Rightarrow> string \<Rightarrow> state" where
  "session_state key uuid =
     \<lparr>API_KEY = key, session_id = uuid, file_cache = Map.empty,
      Settings_embed_model = None, Settings_llm = None\<rparr>"

text \<open>The assignment \<^verbatim>\<open>session_state['file_cache'][file_key] = query_engine\<close>.\<close>

definition cache_put :: "string \<Rightarrow> query_engine \<Rightarrow> state \<Rightarrow> state" where
  "cache_put k qe s = s\<lparr>file_cache := (file_cache s)(k \<mapsto> qe)\<rparr>"

subsection \<open>The outside\<close>

datatype event =
    Print string
  | Open_wb string
  | Write string bytes
  | Setup_call string string
  | Setup_return string query_engine
  | Engine_query query_engine string

text \<open>
  What the outside answers during one request. A field of type \<open>exn option\<close> is
  \<open>Some e\<close> when the call raises \<open>e\<close>; a field of type \<open>exn + 'a\<close> is \<open>Inl e\<close>
  when the call raises and \<open>Inr x\<close> when it returns \<open>x\<close>. \<open>print_stdout\<close> is
  \<^verbatim>\<open>print\<close>, which writes a text to standard output and raises when the stream
  cannot take it (\<^verbatim>\<open>UnicodeEncodeError\<close> for a text its encoding does not have,
  \<^verbatim>\<open>ValueError\<close> on a closed stream, \<^verbatim>\<open>OSError\<close> on a broken one).
\<close>

record world =
  mkdtemp :: "exn + string"
  cleanup :: "string \<Rightarrow> exn option"
  open_wb :: "string \<Rightarrow> exn option"
  file_read :: "UploadFile \<Rightarrow> exn + bytes"
  write_close :: "string \<Rightarrow> bytes \<Rightarrow> exn option"
  new_reader :: "SimpleDirectoryReader \<Rightarrow> exn option"
  load_data :: "SimpleDirectoryReader \<Rightarrow> exn + document list"
  new_Cohere :: "Cohere \<Rightarrow> exn option"
  new_CohereEmbedding :: "CohereEmbedding \<Rightarrow> exn option"
  new_CohereRerank :: "CohereRerank \<Rightarrow> exn option"
  from_documents :: "VectorStoreIndex \<Rightarrow> exn option"
  as_query_engine :: "VectorStoreIndex \<Rightarrow> exn option"
  default_prompts :: "string \<rightharpoonup> string"
  update_prompts :: "query_engine \<Rightarrow> (string \<times> string) list \<Rightarrow> exn option"
  engine_query :: "query_engine \<Rightarrow> string \<Rightarrow> exn + string"
  print_stdout :: "string \<Rightarrow> exn option"

subsection \<open>Paths\<close>

text \<open>
  \<^verbatim>\<open>os.path.join(a, b)\<close> on a POSIX system: an absolute \<open>b\<close> replaces \<open>a\<close>,
  otherwise \<open>b\<close> is appended, after a separator when \<open>a\<close> does not end with one.
\<close>

definition path_join :: "string \<Rightarrow> string \<Rightarrow> string" where
  "path_join a b =
     (if take 1 b = ''/'' then b
      else if a = [] \<or> last a = CHR ''/'' then a @ b
      else a @ ''/'' @ b)"

subsection \<open>The index builder\<close>

text \<open>The prompt template of lines 76 to 84, one piece for each line of the source.\<close>

definition qa_prompt_tmpl_str :: string where
  "qa_prompt_tmpl_str =
     ''Context information is below.\<newline>'' @
     ''---------------------\<newline>'' @
     ''{context_str}\<newline>'' @
     ''---------------------\<newline>'' @
     ''Given the context information above I want you to think step by step to answer the query in a crisp manner, in case you don't know the answer say 'I don't know!'.\<newline>'' @
     ''Query: {query_str}\<newline>'' @
     ''Answer: ''"

text \<open>
  \<^verbatim>\<open>setup_llama_index(file_path, file_key)\<close>, lines 48 to 93. Each call into the
  library either raises, which ends the function with that exception, or returns the
  object built from its arguments. \<^verbatim>\<open>VectorStoreIndex.from_documents\<close> takes the
  embedding model from \<^verbatim>\<open>Settings\<close>, and \<^verbatim>\<open>as_query_engine\<close> the generating model;
  \<^verbatim>\<open>update_prompts\<close> overrides the entries of the engine's prompt dictionary with the
  ones it is given. The events \<open>Setup_call\<close> and \<open>Setup_return\<close> mark the
  entry into the function and its \<^verbatim>\<open>return\<close>.
\<close>

definition setup_llama_index ::
  "world \<Rightarrow> string \<Rightarrow> string \<Rightarrow> state \<Rightarrow> (exn + query_engine) \<times> state \<times> event list" where
  "setup_llama_index w file_path fkey s =
     (let loader = \<lparr>input_dir = file_path, required_exts = [''.pdf''], recursive = True\<rparr>;
          called = [Setup_call file_path fkey]
      in case new_reader w loader of Some e \<Rightarrow> (Inl e, s, called) | None \<Rightarrow>
      (case load_data w loader of Inl e \<Rightarrow> (Inl e, s, called) | Inr docs \<Rightarrow>
      (let llm = \<lparr>api_key = API_KEY s, model = ''command-r-plus''\<rparr>
       in case new_Cohere w llm of Some e \<Rightarrow> (Inl e, s, called) | None \<Rightarrow>
      (let embed_model = \<lparr>cohere_api_key = API_KEY s, model_name = ''embed-english-v3.0'',
                           input_type = ''search_query''\<rparr>
       in case new_CohereEmbedding w embed_model of Some e \<Rightarrow> (Inl e, s, called) | None \<Rightarrow>
      (let cohere_rerank = \<lparr>rerank_model = ''rerank-english-v3.0'', rerank_api_key = API_KEY s\<rparr>
       in case new_CohereRerank w cohere_rerank of Some e \<Rightarrow> (Inl e, s, called) | None \<Rightarrow>
      (let s1 = s\<lparr>Settings_embed_model := Some embed_model\<rparr>;
           index = \<lparr>index_documents = docs, index_embed_model = Settings_embed_model s1,
                    show_progress = True\<rparr>
       in case from_documents w index of Some e \<Rightarrow> (Inl e, s1, called) | None \<Rightarrow>
      (let s2 = s1\<lparr>Settings_llm := Some llm\<rparr>
       in case as_query_engine w index of Some e \<Rightarrow> (Inl e, s2, called) | None \<Rightarrow>
      (let qe0 = \<lparr>engine_index = index, engine_llm = Settings_llm s2, streaming = True,
                  node_postprocessors = [cohere_rerank], prompts = default_prompts w\<rparr>;
           overrides = [(''response_synthesizer:text_qa_template'', qa_prompt_tmpl_str)]
       in case update_prompts w qe0 overrides of Some e \<Rightarrow> (Inl e, s2, called) | None \<Rightarrow>
      (let qe = qe0\<lparr>prompts := prompts qe0 ++ map_of overrides\<rparr>;
           s3 = cache_put fkey qe s2
       in (Inr qe, s3, called @ [Setup_return fkey qe]))))))))))"

subsection \<open>The upload handler\<close>

text \<open>
  The body of the \<^verbatim>\<open>with tempfile.TemporaryDirectory() as temp_dir\<close> block, lines 99
  to 110. \<^verbatim>\<open>open\<close>, \<^verbatim>\<open>await file.read()\<close> and \<^verbatim>\<open>f.write\<close> (with the closing of
  the file) can each raise. The key is the f-string of line 104; \<^verbatim>\<open>print(file_key)\<close>
  of line 105 can raise as well, which ends the block before the cache is looked at.
\<close>

definition upload_body ::
  "world \<Rightarrow> UploadFile \<Rightarrow> string \<Rightarrow> state \<Rightarrow> (exn + response) \<times> state \<times> event list" where
  "upload_body w file temp_dir s =
     (let file_path = path_join temp_dir (filename file)
      in case open_wb w file_path of Some e \<Rightarrow> (Inl e, s, [Open_wb file_path]) | None \<Rightarrow>
      (case file_read w file of Inl e \<Rightarrow> (Inl e, s, [Open_wb file_path]) | Inr data \<Rightarrow>
      (case write_close w file_path data of
         Some e \<Rightarrow> (Inl e, s, [Open_wb file_path, Write file_path data])
       | None \<Rightarrow>
      (let fkey = session_id s @ ''-'' @ filename file;
           done = [Open_wb file_path, Write file_path data, Print fkey]
       in case print_stdout w fkey of Some e \<Rightarrow> (Inl e, s, done) | None \<Rightarrow>
          (if file_cache s fkey = None then
             (case setup_llama_index w temp_dir fkey s of
                (Inl e, s1, tr) \<Rightarrow> (Inl e, s1, done @ tr)
              | (Inr qe, s1, tr) \<Rightarrow>
                  (let s2 = cache_put fkey qe s1
                   in (Inr (Id_response (session_id s2)), s2, done @ tr)))
           else (Inr (Id_response (session_id s)), s, done))))))"

text \<open>
  The \<^verbatim>\<open>with\<close> statement: the directory is created, the body runs, and the directory
  is removed however the body ends; an exception of the removal replaces the body's
  outcome.
\<close>

definition with_TemporaryDirectory ::
  "world \<Rightarrow> (string \<Rightarrow> state \<Rightarrow> (exn + 'a) \<times> state \<times> event list) \<Rightarrow> state
     \<Rightarrow> (exn + 'a) \<times> state \<times> event list" where
  "with_TemporaryDirectory w body s =
     (case mkdtemp w of Inl e \<Rightarrow> (Inl e, s, []) | Inr temp_dir \<Rightarrow>
      (case body temp_dir s of (r, s1, tr) \<Rightarrow>
      (case cleanup w temp_dir of Some e \<Rightarrow> (Inl e, s1, tr) | None \<Rightarrow> (r, s1, tr))))"

text \<open>
  \<^verbatim>\<open>upload_file\<close>, lines 95 to 112: the \<^verbatim>\<open>try\<close> block, and the clause
  \<^verbatim>\<open>except Exception as e: raise HTTPException(status_code=500, detail=str(e))\<close>.
\<close>

definition upload_file ::
  "world \<Rightarrow> UploadFile \<Rightarrow> state \<Rightarrow> (exn + response) \<times> state \<times> event list" where
  "upload_file w file s =
     (case with_TemporaryDirectory w (upload_body w file) s of
        (Inl e, s1, tr) \<Rightarrow> (Inl (HTTPException 500 (str_exn e)), s1, tr)
      | (Inr r, s1, tr) \<Rightarrow> (Inr r, s1, tr))"

subsection \<open>The query handler\<close>

text \<open>
  The \<^verbatim>\<open>try\<close> block of \<^verbatim>\<open>query\<close>, lines 117 to 125. It begins with
  \<^verbatim>\<open>print(request.prompt)\<close>, which can raise, and then the cache is not looked at.
  \<^verbatim>\<open>dict.get\<close> gives \<^verbatim>\<open>None\<close> for a missing key, and an engine object is never
  false, so \<^verbatim>\<open>not query_engine\<close> holds exactly when the key is missing.
  \<open>engine_query\<close> is \<^verbatim>\<open>str(query_engine.query(request.prompt))\<close>.
\<close>

definition query_body ::
  "world \<Rightarrow> QueryRequest \<Rightarrow> state \<Rightarrow> (exn + response) \<times> state \<times> event list" where
  "query_body w request s =
     (case print_stdout w (prompt request) of
        Some e \<Rightarrow> (Inl e, s, [Print (prompt request)])
      | None \<Rightarrow>
     (case file_cache s (file_key request) of
        None \<Rightarrow>
          (Inl (HTTPException 404 ''Query engine not found.''), s, [Print (prompt request)])
      | Some qe \<Rightarrow>
          (case engine_query w qe (prompt request) of
             Inl e \<Rightarrow> (Inl e, s, [Print (prompt request), Engine_query qe (prompt request)])
           | Inr text \<Rightarrow>
               (Inr (Message_response text), s,
                [Print (prompt request), Engine_query qe (prompt request)]))))"

text \<open>
  \<^verbatim>\<open>query\<close>, lines 114 to 128, with the clause
  \<^verbatim>\<open>except Exception as e: print(e); raise HTTPException(status_code=500, detail=str(e))\<close>.
  \<^verbatim>\<open>print(e)\<close> writes \<^verbatim>\<open>str(e)\<close>; when it raises, line 128 is not reached and the
  exception of \<^verbatim>\<open>print\<close> leaves the handler as it is. (The framework answers an
  exception that leaves a handler and is no \<^verbatim>\<open>HTTPException\<close> with status 500 and a
  fixed body of its own.)
\<close>

definition query ::
  "world \<Rightarrow> QueryRequest \<Rightarrow> state \<Rightarrow> (exn + response) \<times> state \<times> event list" where
  "query w request s =
     (case query_body w request s of
        (Inl e, s1, tr) \<Rightarrow>
          (case print_stdout w (str_exn e) of
             Some e' \<Rightarrow> (Inl e', s1, tr @ [Print (str_exn e)])
           | None \<Rightarrow> (Inl (HTTPException 500 (str_exn e)), s1, tr @ [Print (str_exn e)]))
      | (Inr r, s1, tr) \<Rightarrow> (Inr r, s1, tr))"

subsection \<open>Sequences of requests\<close>

text \<open>
  Neither handler gives up control between its first and its last access to the
  globals (the only \<^verbatim>\<open>await\<close> of the program, in line 102, comes before the upload
  handler reads \<^verbatim>\<open>session_state\<close>), so with respect to the globals the requests of a
  process run one after the other. Each request comes with the answers of the outside
  during it.
\<close>

datatype request = Upload world UploadFile | Query world QueryRequest

fun handle :: "request \<Rightarrow> state \<Rightarrow> (exn + response) \<times> state \<times> event list" where
  "handle (Upload w file) s = upload_file w file s"
| "handle (Query w request) s = query w request s"

fun run :: "state \<Rightarrow> request list \<Rightarrow> state \<times> event list" where
  "run s [] = (s, [])"
| "run s (r # rs) =
     (case handle r s of (_, s1, tr1) \<Rightarrow>
      (case run s1 rs of (s2, tr2) \<Rightarrow> (s2, tr1 @ tr2)))"

subsection \<open>Notions the properties are stated with\<close>

fun is_setup_call :: "event \<Rightarrow> bool" where
  "is_setup_call (Setup_call p k) = True"
| "is_setup_call _ = False"

fun is_setup_return :: "string \<Rightarrow> event \<Rightarrow> bool" where
  "is_setup_return k (Setup_return k' qe) = (k' = k)"
| "is_setup_return k _ = False"

fun is_engine_query :: "event \<Rightarrow> bool" where
  "is_engine_query (Engine_query qe p) = True"
| "is_engine_query _ = False"

text \<open>
  An engine on which every step of the builder has been carried out: built over an index
  with the embedding model, with the generating model, streaming, the reranker attached,
  and the answer prompt overridden with the template.
\<close>

definition fully_constructed :: "query_engine \<Rightarrow> bool" where
  "fully_constructed qe \<longleftrightarrow>
     index_embed_model (engine_index qe) \<noteq> None \<and>
     engine_llm qe \<noteq> None \<and>
     streaming qe \<and>
     length (node_postprocessors qe) = 1 \<and>
     prompts qe ''response_synthesizer:text_qa_template'' = Some qa_prompt_tmpl_str"

text \<open>
  Where a path leads, for an absolute path and without symbolic links: the names from
  the root down, after \<^verbatim>\<open>.\<close> and empty names are dropped and each \<^verbatim>\<open>..\<close> has
  removed the name before it (at the root it removes nothing). A path is within a
  directory when the directory's names begin the path's.
\<close>

fun split_sep :: "string \<Rightarrow> string list" where
  "split_sep [] = [[]]"
| "split_sep (c # cs) =
     (if c = CHR ''/'' then [] # split_sep cs
      else (case split_sep cs of [] \<Rightarrow> [[c]] | x # xs \<Rightarrow> (c # x) # xs))"

definition walk :: "string list \<Rightarrow> string \<Rightarrow> string list" where
  "walk names name =
     (if name = [] \<or> name = ''.'' then names
      else if name = ''..'' then butlast names
      else names @ [name])"

definition resolve :: "string \<Rightarrow> string list" where
  "resolve path = foldl walk [] (split_sep path)"

definition within :: "string \<Rightarrow> string \<Rightarrow> bool" where
  "within dir path \<longleftrightarrow> prefix (resolve dir) (resolve path)"

text \<open>
  The file handling of an upload raises nothing: the directory is made, the file is
  opened, read, written and closed, and the directory is removed.
\<close>

definition saved :: "world \<Rightarrow> UploadFile \<Rightarrow> bool" where
  "saved w file \<longleftrightarrow>
     (case mkdtemp w of Inl e \<Rightarrow> False | Inr temp_dir \<Rightarrow>
        open_wb w (path_join temp_dir (filename file)) = None \<and>
        (case file_read w file of Inl e \<Rightarrow> False | Inr data \<Rightarrow>
           write_close w (path_join temp_dir (filename file)) data = None) \<and>
        cleanup w temp_dir = None)"

subsection \<open>Answers of the outside used in the examples\<close>

text \<open>An outside where every call succeeds.\<close>

definition w_ok :: world where
  "w_ok =
     \<lparr>mkdtemp = Inr ''/tmp/tmpab12cd34'', cleanup = (\<lambda>_. None), open_wb = (\<lambda>_. None),
      file_read = (\<lambda>_. Inr ''%PDF-1.7''), write_close = (\<lambda>_ _. None),
      new_reader = (\<lambda>_. None), load_data = (\<lambda>_. Inr [''Total: 42'']),
      new_Cohere = (\<lambda>_. None), new_CohereEmbedding = (\<lambda>_. None),
      new_CohereRerank = (\<lambda>_. None), from_documents = (\<lambda>_. None),
      as_query_engine = (\<lambda>_. None), default_prompts = Map.empty,
      update_prompts = (\<lambda>_ _. None), engine_query = (\<lambda>_ _. Inr ''42''),
      print_stdout = (\<lambda>_. None)\<rparr>"

definition S0 :: state where
  "S0 = session_state (Some ''key'') ''S''"

definition report_pdf :: UploadFile where
  "report_pdf = \<lparr>filename = ''report.pdf''\<rparr>"

text \<open>The engine the builder makes in \<open>S0\<close> when every call succeeds.\<close>

definition engine0 :: query_engine where
  "engine0 =
     \<lparr>engine_index =
        \<lparr>index_documents = [''Total: 42''],
         index_embed_model =
           Some \<lparr>cohere_api_key = Some ''key'', model_name = ''embed-english-v3.0'',
                 input_type = ''search_query''\<rparr>,
         show_progress = True\<rparr>,
      engine_llm = Some \<lparr>api_key = Some ''key'', model = ''command-r-plus''\<rparr>,
      streaming = True,
      node_postprocessors =
        [\<lparr>rerank_model = ''rerank-english-v3.0'', rerank_api_key = Some ''key''\<rparr>],
      prompts = [''response_synthesizer:text_qa_template'' \<mapsto> qa_prompt_tmpl_str]\<rparr>"

text \<open>The globals after \<^verbatim>\<open>report.pdf\<close> has been uploaded in \<open>S0\<close>.\<close>

definition S1 :: state where
  "S1 =
     \<lparr>API_KEY = Some ''key'', session_id = ''S'',
      file_cache = [''S-report.pdf'' \<mapsto> engine0],
      Settings_embed_model =
        Some \<lparr>cohere_api_key = Some ''key'', model_name = ''embed-english-v3.0'',
              input_type = ''search_query''\<rparr>,
      Settings_llm = Some \<lparr>api_key = Some ''key'', model = ''command-r-plus''\<rparr>\<rparr>"

section \<open>Properties\<close>

subsection \<open>Facts about the builder and the handlers\<close>

lemma setup_llama_index_Inr:
  assumes "setup_llama_index w p k s = (Inr qe, s1, tr)"
  shows "fully_constructed qe \<and> file_cache s1 = (file_cache s)(k \<mapsto> qe) \<and>
         session_id s1 = session_id s \<and> API_KEY s1 = API_KEY s \<and>
         tr = [Setup_call p k, Setup_return k qe]"
  using assms
  by (auto simp: setup_llama_index_def Let_def cache_put_def fully_constructed_def
      split: option.splits sum.splits)

lemma setup_llama_index_Inl:
  assumes "setup_llama_index w p k s = (Inl e, s1, tr)"
  shows "file_cache s1 = file_cache s \<and> session_id s1 = session_id s \<and>
         API_KEY s1 = API_KEY s \<and> tr = [Setup_call p k]"
  using assms
  by (auto simp: setup_llama_index_def Let_def cache_put_def
      split: option.splits sum.splits)

lemma cache_put_idem: "file_cache s k = Some qe \<Longrightarrow> cache_put k qe s = s"
  by (simp add: cache_put_def map_upd_triv)

lemmas upload_defs = upload_file_def with_TemporaryDirectory_def upload_body_def Let_def

lemma upload_file_frame:
  assumes "upload_file w f s = (r, s1, tr)"
  shows "session_id s1 = session_id s \<and> API_KEY s1 = API_KEY s"
  using assms
  by (auto simp: upload_defs cache_put_def
      split: option.splits sum.splits prod.splits if_splits
      dest!: setup_llama_index_Inr setup_llama_index_Inl)

lemma upload_file_hit:
  assumes "file_cache s (session_id s @ ''-'' @ filename f) = Some qe"
    and "upload_file w f s = (r, s1, tr)"
  shows "s1 = s \<and> filter is_setup_call tr = []"
  using assms
  by (auto simp: upload_defs split: option.splits sum.splits prod.splits if_splits)

lemma upload_file_Inr:
  assumes "upload_file w f s = (Inr r, s1, tr)"
  shows "r = Id_response (session_id s) \<and>
         file_cache s1 (session_id s @ ''-'' @ filename f) \<noteq> None"
  using assms
  by (auto simp: upload_defs cache_put_def
      split: option.splits sum.splits prod.splits if_splits
      dest!: setup_llama_index_Inr)

lemma upload_file_cache:
  assumes "upload_file w f s = (r, s1, tr)"
  shows "(file_cache s1 = file_cache s \<and> (\<forall>k. filter (is_setup_return k) tr = []))
       \<or> (file_cache s (session_id s @ ''-'' @ filename f) = None \<and>
          (\<exists>qe. fully_constructed qe \<and>
             file_cache s1 = (file_cache s)(session_id s @ ''-'' @ filename f \<mapsto> qe) \<and>
             (\<forall>k. filter (is_setup_return k) tr =
                (if k = session_id s @ ''-'' @ filename f
                 then [Setup_return (session_id s @ ''-'' @ filename f) qe] else []))))"
  using assms
  by (auto simp: upload_defs cache_put_def
      split: option.splits sum.splits prod.splits if_splits
      dest!: setup_llama_index_Inr setup_llama_index_Inl)


lemma query_state: "query w request s = (r, s1, tr) \<Longrightarrow> s1 = s"
  by (auto simp: query_def query_body_def split: option.splits sum.splits)

lemma query_no_setup:
  "query w request s = (r, s1, tr) \<Longrightarrow> filter (is_setup_return k) tr = []"
  by (auto simp: query_def query_body_def split: option.splits sum.splits)

lemma upload_S0:
  "upload_file w_ok report_pdf S0 =
     (Inr (Id_response ''S''), S1,
      [Open_wb ''/tmp/tmpab12cd34/report.pdf'',
       Write ''/tmp/tmpab12cd34/report.pdf'' ''%PDF-1.7'',
       Print ''S-report.pdf'', Setup_call ''/tmp/tmpab12cd34'' ''S-report.pdf'',
       Setup_return ''S-report.pdf'' engine0])"
  by (simp add: upload_defs setup_llama_index_def w_ok_def S0_def S1_def
      session_state_def report_pdf_def engine0_def path_join_def cache_put_def)

lemma setup_S0:
  "setup_llama_index w_ok ''/tmp/tmpab12cd34'' ''S-report.pdf'' S0 =
     (Inr engine0, S1,
      [Setup_call ''/tmp/tmpab12cd34'' ''S-report.pdf'', Setup_return ''S-report.pdf'' engine0])"
  by (simp add: setup_llama_index_def w_ok_def S0_def S1_def
      session_state_def engine0_def cache_put_def Let_def)

subsection \<open>Claims\<close>

text \<open>
  C1. A query whose \<open>file_key\<close> is not in the cache is to fail with status 404 and
  detail \<^verbatim>\<open>Query engine not found.\<close>. The handler raises that exception inside its own
  \<^verbatim>\<open>try\<close> block, whose \<^verbatim>\<open>except Exception\<close> clause catches it and raises status 500
  with the text of the caught exception as detail. Evaluated for the key
  \<^verbatim>\<open>S-missing.pdf\<close> in a cache that holds \<^verbatim>\<open>S-report.pdf\<close> only: the response is
  500, not 404.
\<close>

theorem query_missing_key_is_500:
  "query w_ok \<lparr>prompt = ''What is the total?'', file_key = ''S-missing.pdf''\<rparr> S1 =
     (Inl (HTTPException 500 ''404: Query engine not found.''), S1,
      [Print ''What is the total?'', Print ''404: Query engine not found.''])"
  by (simp add: query_def query_body_def w_ok_def S1_def str_nat.simps)

text \<open>
  C9. The query handler leaves the globals as they were (the session identifier, every
  cache entry, and the rest), whether it answers, fails for a missing key or fails with
  an exception of the engine: the state it returns is the state it was given.
\<close>

theorem query_leaves_state:
  "fst (snd (query w request s)) = s \<and>
   session_id (fst (snd (query w request s))) = session_id s \<and>
   file_cache (fst (snd (query w request s))) = file_cache s"
  by (simp add: query_def query_body_def split: option.splits sum.splits)

text \<open>
  C6. When the index builder returns, the engine it returns has its answer prompt
  (\<^verbatim>\<open>response_synthesizer:text_qa_template\<close>) set to the fixed template, which asks to
  think step by step and to say \<^verbatim>\<open>I don't know!\<close>; every construction step has been
  carried out on the engine; and the cache holds that same engine under the given key.
\<close>

theorem setup_llama_index_returns_ready_engine:
  assumes "setup_llama_index w file_path fkey s = (Inr qe, s1, tr)"
  shows "prompts qe ''response_synthesizer:text_qa_template'' = Some qa_prompt_tmpl_str \<and>
         sublist ''think step by step'' qa_prompt_tmpl_str \<and>
         sublist ''I don't know!'' qa_prompt_tmpl_str \<and>
         fully_constructed qe \<and>
         file_cache s1 fkey = Some qe"
proof -
  have tmpl: "sublist ''think step by step'' qa_prompt_tmpl_str \<and>
              sublist ''I don't know!'' qa_prompt_tmpl_str"
    unfolding qa_prompt_tmpl_str_def by (simp add: sublist_Cons_right)
  from setup_llama_index_Inr [OF assms]
  have "fully_constructed qe" and "file_cache s1 fkey = Some qe"
    by simp_all
  with tmpl show ?thesis
    by (simp add: fully_constructed_def)
qed

theorem setup_llama_index_returns_ready_engine_witness:
  "setup_llama_index w_ok ''/tmp/tmpab12cd34'' ''S-report.pdf'' S0 =
     (Inr engine0, S1,
      [Setup_call ''/tmp/tmpab12cd34'' ''S-report.pdf'', Setup_return ''S-report.pdf'' engine0]) \<and>
   prompts engine0 ''response_synthesizer:text_qa_template'' = Some qa_prompt_tmpl_str \<and>
   sublist ''think step by step'' qa_prompt_tmpl_str \<and>
   sublist ''I don't know!'' qa_prompt_tmpl_str \<and>
   fully_constructed engine0 \<and>
   file_cache S1 ''S-report.pdf'' = Some engine0"
  using setup_llama_index_returns_ready_engine [OF setup_S0] setup_S0 by simp

lemma handle_frame:
  assumes "handle r s = (res, s1, tr)"
  shows "session_id s1 = session_id s \<and> API_KEY s1 = API_KEY s"
proof (cases r)
  case (Upload w f)
  with assms show ?thesis by (simp add: upload_file_frame)
next
  case (Query w request)
  with assms show ?thesis by (auto dest: query_state)
qed

lemma handle_cache_mono:
  assumes "handle r s = (res, s1, tr)" and "file_cache s k = Some qe"
  shows "file_cache s1 k = Some qe"
proof (cases r)
  case (Upload w f)
  with assms have "upload_file w f s = (res, s1, tr)" by simp
  from upload_file_cache [OF this] assms(2) show ?thesis by auto
next
  case (Query w request)
  with assms show ?thesis by (auto dest: query_state)
qed

lemma run_frame:
  "run s reqs = (s2, tr) \<Longrightarrow> session_id s2 = session_id s \<and> API_KEY s2 = API_KEY s"
proof (induction reqs arbitrary: s s2 tr)
  case Nil
  then show ?case by simp
next
  case (Cons r rs)
  obtain res s1 tr1 where h: "handle r s = (res, s1, tr1)"
    by (cases "handle r s") auto
  obtain s3 tr3 where rr: "run s1 rs = (s3, tr3)"
    by (cases "run s1 rs") auto
  from Cons.prems h rr have "s2 = s3" by simp
  with Cons.IH [OF rr] handle_frame [OF h] show ?case by simp
qed

lemma run_cache_mono:
  "run s reqs = (s2, tr) \<Longrightarrow> file_cache s k = Some qe \<Longrightarrow> file_cache s2 k = Some qe"
proof (induction reqs arbitrary: s s2 tr)
  case Nil
  then show ?case by simp
next
  case (Cons r rs)
  obtain res s1 tr1 where h: "handle r s = (res, s1, tr1)"
    by (cases "handle r s") auto
  obtain s3 tr3 where rr: "run s1 rs = (s3, tr3)"
    by (cases "run s1 rs") auto
  from Cons.prems h rr have "s2 = s3" by simp
  with Cons.IH [OF rr handle_cache_mono [OF h Cons.prems(2)]] show ?case by simp
qed

lemma handle_built:
  assumes "handle r s = (res, s1, tr1)"
    and "\<forall>k. (file_cache s k = None \<longrightarrow> filter (is_setup_return k) tr0 = []) \<and>
             (\<forall>qe. file_cache s k = Some qe \<longrightarrow> fully_constructed qe \<and>
                 filter (is_setup_return k) tr0 = [Setup_return k qe])"
  shows "\<forall>k. (file_cache s1 k = None \<longrightarrow> filter (is_setup_return k) (tr0 @ tr1) = []) \<and>
             (\<forall>qe. file_cache s1 k = Some qe \<longrightarrow> fully_constructed qe \<and>
                 filter (is_setup_return k) (tr0 @ tr1) = [Setup_return k qe])"
proof (cases r)
  case (Upload w f)
  with assms have "upload_file w f s = (res, s1, tr1)" by simp
  from upload_file_cache [OF this] show ?thesis
  proof
    assume "file_cache s1 = file_cache s \<and> (\<forall>k. filter (is_setup_return k) tr1 = [])"
    with assms(2) show ?thesis by simp
  next
    assume a: "file_cache s (session_id s @ ''-'' @ filename f) = None \<and>
      (\<exists>qe. fully_constructed qe \<and>
         file_cache s1 = (file_cache s)(session_id s @ ''-'' @ filename f \<mapsto> qe) \<and>
         (\<forall>k. filter (is_setup_return k) tr1 =
            (if k = session_id s @ ''-'' @ filename f
             then [Setup_return (session_id s @ ''-'' @ filename f) qe] else [])))"
    then obtain qe where q: "fully_constructed qe"
      "file_cache s1 = (file_cache s)(session_id s @ ''-'' @ filename f \<mapsto> qe)"
      "\<forall>k. filter (is_setup_return k) tr1 =
            (if k = session_id s @ ''-'' @ filename f
             then [Setup_return (session_id s @ ''-'' @ filename f) qe] else [])"
      by blast
    from a assms(2) have "filter (is_setup_return (session_id s @ ''-'' @ filename f)) tr0 = []"
      by blast
    with q assms(2) show ?thesis by simp
  qed
next
  case (Query w request)
  with assms(1) have "s1 = s" and "\<forall>k. filter (is_setup_return k) tr1 = []"
    by (auto dest: query_state query_no_setup)
  with assms(2) show ?thesis by simp
qed

lemma run_built:
  "run s reqs = (s2, tr) \<Longrightarrow>
   \<forall>k. (file_cache s k = None \<longrightarrow> filter (is_setup_return k) tr0 = []) \<and>
       (\<forall>qe. file_cache s k = Some qe \<longrightarrow> fully_constructed qe \<and>
           filter (is_setup_return k) tr0 = [Setup_return k qe]) \<Longrightarrow>
   \<forall>k. (file_cache s2 k = None \<longrightarrow> filter (is_setup_return k) (tr0 @ tr) = []) \<and>
       (\<forall>qe. file_cache s2 k = Some qe \<longrightarrow> fully_constructed qe \<and>
           filter (is_setup_return k) (tr0 @ tr) = [Setup_return k qe])"
proof (induction reqs arbitrary: s s2 tr tr0)
  case Nil
  then show ?case by simp
next
  case (Cons r rs)
  obtain res s1 tr1 where h: "handle r s = (res, s1, tr1)"
    by (cases "handle r s") auto
  obtain s3 tr3 where rr: "run s1 rs = (s3, tr3)"
    by (cases "run s1 rs") auto
  from Cons.prems(1) h rr have eq: "s2 = s3" "tr = tr1 @ tr3" by simp_all
  from Cons.IH [OF rr handle_built [OF h Cons.prems(2)]] eq show ?case by simp
qed

lemma upload_S1:
  "upload_file w_ok report_pdf S1 =
     (Inr (Id_response ''S''), S1,
      [Open_wb ''/tmp/tmpab12cd34/report.pdf'',
       Write ''/tmp/tmpab12cd34/report.pdf'' ''%PDF-1.7'',
       Print ''S-report.pdf''])"
  by (simp add: upload_defs w_ok_def S1_def report_pdf_def path_join_def)

lemma query_S1:
  "query w_ok \<lparr>prompt = ''What is the total?'', file_key = ''S-report.pdf''\<rparr> S1 =
     (Inr (Message_response ''42''), S1,
      [Print ''What is the total?'', Engine_query engine0 ''What is the total?''])"
  by (simp add: query_def query_body_def w_ok_def S1_def)

lemma saved_w_ok: "saved w_ok report_pdf"
  by (simp add: saved_def w_ok_def)

lemma upload_file_hit_saved:
  assumes "file_cache s (session_id s @ ''-'' @ filename f) = Some qe" and "saved w f"
    and "print_stdout w (session_id s @ ''-'' @ filename f) = None"
  shows "fst (upload_file w f s) = Inr (Id_response (session_id s))"
  using assms
  by (auto simp: upload_defs saved_def split: option.splits sum.splits)

text \<open>
  The specification has the cache written only after the builder has returned. The
  builder writes it itself, in line 91, two lines before its \<^verbatim>\<open>return\<close>: called for
  \<^verbatim>\<open>S-report.pdf\<close> in a state whose cache is empty, with every call succeeding, it
  returns in a state that holds the engine under the key already.
\<close>

theorem cache_written_before_builder_returns:
  "file_cache S0 ''S-report.pdf'' = None \<and>
   setup_llama_index w_ok ''/tmp/tmpab12cd34'' ''S-report.pdf'' S0 =
     (Inr engine0, S1,
      [Setup_call ''/tmp/tmpab12cd34'' ''S-report.pdf'', Setup_return ''S-report.pdf'' engine0]) \<and>
   file_cache S1 ''S-report.pdf'' = Some engine0"
  by (simp add: setup_S0) (simp add: S0_def S1_def session_state_def)

text \<open>
  C3. In every state a process reaches from its start, by any sequence of upload and
  query requests and whatever the outside answers, an entry of the cache is an engine on
  which every construction step has been carried out, and the builder has returned for
  its key exactly once, with that engine. No entry is made before the last construction
  step: a call of the builder that raises leaves the cache as it was, and a call that
  returns has changed the cache by the one entry of its key, the finished engine. That
  first write is the builder's own last statement before its \<^verbatim>\<open>return\<close> (line 91), and
  not a statement after the return; the handler's write (line 109) is the second.
\<close>

theorem cache_entries_fully_built:
  assumes "run (session_state key uuid) reqs = (s, tr)"
  shows "(\<forall>k qe. file_cache s k = Some qe \<longrightarrow>
            fully_constructed qe \<and> filter (is_setup_return k) tr = [Setup_return k qe]) \<and>
         (\<forall>w p k e s0 s1 tr1. setup_llama_index w p k s0 = (Inl e, s1, tr1) \<longrightarrow>
            file_cache s1 = file_cache s0) \<and>
         (\<forall>w p k qe s0 s1 tr1. setup_llama_index w p k s0 = (Inr qe, s1, tr1) \<longrightarrow>
            fully_constructed qe \<and> file_cache s1 = (file_cache s0)(k \<mapsto> qe))"
proof -
  have "\<forall>k. (file_cache (session_state key uuid) k = None \<longrightarrow>
              filter (is_setup_return k) [] = []) \<and>
            (\<forall>qe. file_cache (session_state key uuid) k = Some qe \<longrightarrow>
              fully_constructed qe \<and> filter (is_setup_return k) [] = [Setup_return k qe])"
    by (simp add: session_state_def)
  from run_built [OF assms this]
  have inv: "\<forall>k qe. file_cache s k = Some qe \<longrightarrow>
          fully_constructed qe \<and> filter (is_setup_return k) tr = [Setup_return k qe]"
    by simp
  have raises: "\<forall>w p k e s0 s1 tr1. setup_llama_index w p k s0 = (Inl e, s1, tr1) \<longrightarrow>
            file_cache s1 = file_cache s0"
    using setup_llama_index_Inl by blast
  have returns: "\<forall>w p k qe s0 s1 tr1. setup_llama_index w p k s0 = (Inr qe, s1, tr1) \<longrightarrow>
            fully_constructed qe \<and> file_cache s1 = (file_cache s0)(k \<mapsto> qe)"
    using setup_llama_index_Inr by blast
  show ?thesis
    by (intro conjI inv raises returns)
qed

theorem cache_entries_fully_built_witness:
  "run (session_state (Some ''key'') ''S'') [Upload w_ok report_pdf] =
     (S1,
      [Open_wb ''/tmp/tmpab12cd34/report.pdf'',
       Write ''/tmp/tmpab12cd34/report.pdf'' ''%PDF-1.7'',
       Print ''S-report.pdf'', Setup_call ''/tmp/tmpab12cd34'' ''S-report.pdf'',
       Setup_return ''S-report.pdf'' engine0]) \<and>
   file_cache S1 ''S-report.pdf'' = Some engine0 \<and>
   fully_constructed engine0 \<and>
   filter (is_setup_return ''S-report.pdf'')
     [Open_wb ''/tmp/tmpab12cd34/report.pdf'',
      Write ''/tmp/tmpab12cd34/report.pdf'' ''%PDF-1.7'',
      Print ''S-report.pdf'', Setup_call ''/tmp/tmpab12cd34'' ''S-report.pdf'',
      Setup_return ''S-report.pdf'' engine0] = [Setup_return ''S-report.pdf'' engine0] \<and>
   setup_llama_index (w_ok\<lparr>from_documents := (\<lambda>_. Some (Exception ''invalid api token''))\<rparr>)
     ''/tmp/tmpab12cd34'' ''S-report.pdf'' S0 =
     (Inl (Exception ''invalid api token''), S0\<lparr>Settings_embed_model := Settings_embed_model S1\<rparr>,
      [Setup_call ''/tmp/tmpab12cd34'' ''S-report.pdf'']) \<and>
   file_cache (S0\<lparr>Settings_embed_model := Settings_embed_model S1\<rparr>) = file_cache S0 \<and>
   setup_llama_index w_ok ''/tmp/tmpab12cd34'' ''S-report.pdf'' S0 =
     (Inr engine0, S1,
      [Setup_call ''/tmp/tmpab12cd34'' ''S-report.pdf'', Setup_return ''S-report.pdf'' engine0]) \<and>
   file_cache S1 = (file_cache S0)(''S-report.pdf'' \<mapsto> engine0)"
proof -
  have r: "run (session_state (Some ''key'') ''S'') [Upload w_ok report_pdf] =
     (S1,
      [Open_wb ''/tmp/tmpab12cd34/report.pdf'',
       Write ''/tmp/tmpab12cd34/report.pdf'' ''%PDF-1.7'',
       Print ''S-report.pdf'', Setup_call ''/tmp/tmpab12cd34'' ''S-report.pdf'',
       Setup_return ''S-report.pdf'' engine0])"
    using upload_S0 by (simp add: S0_def)
  have c: "file_cache S1 ''S-report.pdf'' = Some engine0"
    by (simp add: S1_def)
  have f: "setup_llama_index
      (w_ok\<lparr>from_documents := (\<lambda>_. Some (Exception ''invalid api token''))\<rparr>)
      ''/tmp/tmpab12cd34'' ''S-report.pdf'' S0 =
     (Inl (Exception ''invalid api token''), S0\<lparr>Settings_embed_model := Settings_embed_model S1\<rparr>,
      [Setup_call ''/tmp/tmpab12cd34'' ''S-report.pdf''])"
    by (simp add: setup_llama_index_def w_ok_def S0_def S1_def session_state_def Let_def)
  note t = cache_entries_fully_built [OF r]
  have t1: "fully_constructed engine0 \<and>
      filter (is_setup_return ''S-report.pdf'')
       [Open_wb ''/tmp/tmpab12cd34/report.pdf'',
        Write ''/tmp/tmpab12cd34/report.pdf'' ''%PDF-1.7'',
        Print ''S-report.pdf'', Setup_call ''/tmp/tmpab12cd34'' ''S-report.pdf'',
        Setup_return ''S-report.pdf'' engine0] = [Setup_return ''S-report.pdf'' engine0]"
    using t [THEN conjunct1, rule_format, OF c] .
  have t2: "file_cache (S0\<lparr>Settings_embed_model := Settings_embed_model S1\<rparr>) = file_cache S0"
    using t [THEN conjunct2, THEN conjunct1, rule_format, OF f] .
  have t3: "file_cache S1 = (file_cache S0)(''S-report.pdf'' \<mapsto> engine0)"
    using t [THEN conjunct2, THEN conjunct2, rule_format, OF setup_S0, THEN conjunct2] .
  show ?thesis
    by (intro conjI r c t1 [THEN conjunct1] t1 [THEN conjunct2] f t2 setup_S0 t3)
qed

text \<open>
  C7. The session identifier is the token the module's initialisation put into
  \<^verbatim>\<open>session_state\<close>: no request changes it, and every upload that succeeds returns it,
  for every file and whatever the outside answers. (How the token is drawn,
  \<^verbatim>\<open>str(uuid4())\<close>, is outside the program; the token is a parameter here.)
\<close>

theorem session_id_never_changes:
  assumes "run (session_state key uuid) reqs = (s, tr)"
  shows "session_id s = uuid \<and>
         (\<forall>w f r s1 tr1. upload_file w f s = (Inr r, s1, tr1) \<longrightarrow>
            r = Id_response uuid \<and> session_id s1 = uuid)"
proof -
  from run_frame [OF assms] have "session_id s = uuid"
    by (simp add: session_state_def)
  then show ?thesis
    using upload_file_Inr upload_file_frame by metis
qed

theorem session_id_never_changes_witness:
  "run (session_state (Some ''key'') ''S'') [Upload w_ok report_pdf] =
     (S1,
      [Open_wb ''/tmp/tmpab12cd34/report.pdf'',
       Write ''/tmp/tmpab12cd34/report.pdf'' ''%PDF-1.7'',
       Print ''S-report.pdf'', Setup_call ''/tmp/tmpab12cd34'' ''S-report.pdf'',
       Setup_return ''S-report.pdf'' engine0]) \<and>
   session_id S1 = ''S'' \<and>
   upload_file w_ok report_pdf S1 =
     (Inr (Id_response ''S''), S1,
      [Open_wb ''/tmp/tmpab12cd34/report.pdf'',
       Write ''/tmp/tmpab12cd34/report.pdf'' ''%PDF-1.7'',
       Print ''S-report.pdf''])"
proof -
  have r: "run (session_state (Some ''key'') ''S'') [Upload w_ok report_pdf] =
     (S1,
      [Open_wb ''/tmp/tmpab12cd34/report.pdf'',
       Write ''/tmp/tmpab12cd34/report.pdf'' ''%PDF-1.7'',
       Print ''S-report.pdf'', Setup_call ''/tmp/tmpab12cd34'' ''S-report.pdf'',
       Setup_return ''S-report.pdf'' engine0])"
    using upload_S0 by (simp add: S0_def)
  from session_id_never_changes [OF r] upload_S1 r show ?thesis
    by simp
qed

text \<open>
  C2. After an upload has succeeded, and whatever requests came in between, another
  upload with the same filename does not call the index builder, leaves the globals as
  they are (so the entry of its key is the engine it was), and, when it returns, returns
  the same session identifier; it returns whenever the handling of its file and the
  print of its key raise nothing. The content of the second file plays no part.
\<close>

theorem second_upload_is_cache_hit:
  assumes "upload_file w1 f1 s0 = (Inr r1, s1, tr1)"
    and "run s1 reqs = (s2, tr)"
    and "filename f2 = filename f1"
    and "upload_file w2 f2 s2 = (r2, s3, tr2)"
  shows "filter is_setup_call tr2 = [] \<and>
         s3 = s2 \<and>
         file_cache s3 (session_id s0 @ ''-'' @ filename f1) =
           file_cache s1 (session_id s0 @ ''-'' @ filename f1) \<and>
         file_cache s3 (session_id s0 @ ''-'' @ filename f1) \<noteq> None \<and>
         (\<forall>r. r2 = Inr r \<longrightarrow> r = r1) \<and>
         (saved w2 f2 \<and> print_stdout w2 (session_id s0 @ ''-'' @ filename f1) = None \<longrightarrow>
            r2 = Inr r1)"
proof -
  let ?k = "session_id s0 @ ''-'' @ filename f1"
  from upload_file_Inr [OF assms(1)] obtain qe
    where r1: "r1 = Id_response (session_id s0)" and c1: "file_cache s1 ?k = Some qe"
    by auto
  have "session_id s1 = session_id s0"
    using upload_file_frame [OF assms(1)] by blast
  moreover have "session_id s2 = session_id s1"
    using run_frame [OF assms(2)] by blast
  ultimately have sid: "session_id s2 = session_id s0"
    by simp
  have k2: "session_id s2 @ ''-'' @ filename f2 = ?k"
    unfolding sid assms(3) ..
  have "file_cache s2 ?k = Some qe"
    by (rule run_cache_mono [OF assms(2) c1])
  then have c2: "file_cache s2 (session_id s2 @ ''-'' @ filename f2) = Some qe"
    unfolding k2 .
  have hit: "s3 = s2 \<and> filter is_setup_call tr2 = []"
    by (rule upload_file_hit [OF c2 assms(4)])
  have ret: "\<forall>r. r2 = Inr r \<longrightarrow> r = r1"
  proof (intro allI impI)
    fix r assume "r2 = Inr r"
    with assms(4) have "upload_file w2 f2 s2 = (Inr r, s3, tr2)" by blast
    from upload_file_Inr [OF this] have "r = Id_response (session_id s2)" by blast
    then show "r = r1" unfolding sid r1 .
  qed
  have sv: "saved w2 f2 \<and> print_stdout w2 ?k = None \<longrightarrow> r2 = Inr r1"
  proof
    assume a: "saved w2 f2 \<and> print_stdout w2 ?k = None"
    then have sv2: "saved w2 f2" ..
    from a have "print_stdout w2 ?k = None" ..
    then have pr2: "print_stdout w2 (session_id s2 @ ''-'' @ filename f2) = None"
      unfolding k2 .
    from upload_file_hit_saved [OF c2 sv2 pr2]
    have "fst (upload_file w2 f2 s2) = Inr (Id_response (session_id s0))"
      unfolding sid .
    then show "r2 = Inr r1"
      unfolding assms(4) r1 by (rule box_equals [OF _ fst_conv refl])
  qed
  have e3: "file_cache s3 ?k = Some qe"
    using hit \<open>file_cache s2 ?k = Some qe\<close> by blast
  have "file_cache s3 ?k = file_cache s1 ?k"
    unfolding e3 c1 ..
  moreover have "file_cache s3 ?k \<noteq> None"
    unfolding e3 by blast
  ultimately show ?thesis
    using hit ret sv by blast
qed

theorem second_upload_is_cache_hit_witness:
  "upload_file w_ok report_pdf S0 =
     (Inr (Id_response ''S''), S1,
      [Open_wb ''/tmp/tmpab12cd34/report.pdf'',
       Write ''/tmp/tmpab12cd34/report.pdf'' ''%PDF-1.7'',
       Print ''S-report.pdf'', Setup_call ''/tmp/tmpab12cd34'' ''S-report.pdf'',
       Setup_return ''S-report.pdf'' engine0]) \<and>
   run S1 [Query w_ok \<lparr>prompt = ''What is the total?'', file_key = ''S-report.pdf''\<rparr>] =
     (S1, [Print ''What is the total?'', Engine_query engine0 ''What is the total?'']) \<and>
   saved w_ok report_pdf \<and>
   print_stdout w_ok (session_id S0 @ ''-'' @ filename report_pdf) = None \<and>
   upload_file w_ok report_pdf S1 =
     (Inr (Id_response ''S''), S1,
      [Open_wb ''/tmp/tmpab12cd34/report.pdf'',
       Write ''/tmp/tmpab12cd34/report.pdf'' ''%PDF-1.7'',
       Print ''S-report.pdf'']) \<and>
   filter is_setup_call
     [Open_wb ''/tmp/tmpab12cd34/report.pdf'',
      Write ''/tmp/tmpab12cd34/report.pdf'' ''%PDF-1.7'',
      Print ''S-report.pdf''] = [] \<and>
   file_cache S1 (session_id S0 @ ''-'' @ filename report_pdf) \<noteq> None"
proof -
  have r: "run S1 [Query w_ok \<lparr>prompt = ''What is the total?'', file_key = ''S-report.pdf''\<rparr>] =
     (S1, [Print ''What is the total?'', Engine_query engine0 ''What is the total?''])"
    using query_S1 by simp
  have pr: "print_stdout w_ok (session_id S0 @ ''-'' @ filename report_pdf) = None"
    by (simp add: w_ok_def)
  from second_upload_is_cache_hit [OF upload_S0 r refl upload_S1] upload_S0 r saved_w_ok pr
    upload_S1
  show ?thesis by simp
qed






text \<open>
  C10. When an upload misses the cache and the builder returns, the entry of the key is
  assigned twice: by the builder (line 91), whose state on return holds the engine under
  the key although the state before did not, and by the handler (line 109), which
  assigns the engine the builder returned under the same key. The second assignment
  changes nothing: the globals after the upload are the globals the builder left. (An
  upload reaches the builder when its file has been written and its key printed, lines
  99 to 105, without an exception.)
\<close>

theorem second_cache_assignment_is_idempotent:
  assumes "mkdtemp w = Inr temp_dir"
    and "open_wb w (path_join temp_dir (filename f)) = None"
    and "file_read w f = Inr data"
    and "write_close w (path_join temp_dir (filename f)) data = None"
    and "print_stdout w (session_id s @ ''-'' @ filename f) = None"
    and "file_cache s (session_id s @ ''-'' @ filename f) = None"
    and "setup_llama_index w temp_dir (session_id s @ ''-'' @ filename f) s = (Inr qe, s1, tr)"
  shows "file_cache s1 = (file_cache s)(session_id s @ ''-'' @ filename f \<mapsto> qe) \<and>
         fst (snd (upload_body w f temp_dir s)) =
           cache_put (session_id s @ ''-'' @ filename f) qe s1 \<and>
         cache_put (session_id s @ ''-'' @ filename f) qe s1 = s1 \<and>
         fst (snd (upload_file w f s)) = s1"
proof -
  let ?k = "session_id s @ ''-'' @ filename f"
  from setup_llama_index_Inr [OF assms(7)]
  have first: "file_cache s1 = (file_cache s)(?k \<mapsto> qe)" by blast
  then have "file_cache s1 ?k = Some qe" by simp
  then have idem: "cache_put ?k qe s1 = s1" by (rule cache_put_idem)
  have body: "fst (snd (upload_body w f temp_dir s)) = cache_put ?k qe s1"
    using assms by (simp add: upload_body_def Let_def)
  have "fst (snd (upload_file w f s)) = fst (snd (upload_body w f temp_dir s))"
    using assms(1)
    by (simp add: upload_file_def with_TemporaryDirectory_def
        split: prod.splits sum.splits option.splits)
  with body idem have "fst (snd (upload_file w f s)) = s1" by simp
  with first body idem show ?thesis by blast
qed

theorem second_cache_assignment_is_idempotent_witness:
  "mkdtemp w_ok = Inr ''/tmp/tmpab12cd34'' \<and>
   print_stdout w_ok (session_id S0 @ ''-'' @ filename report_pdf) = None \<and>
   file_cache S0 (session_id S0 @ ''-'' @ filename report_pdf) = None \<and>
   setup_llama_index w_ok ''/tmp/tmpab12cd34'' (session_id S0 @ ''-'' @ filename report_pdf) S0 =
     (Inr engine0, S1,
      [Setup_call ''/tmp/tmpab12cd34'' ''S-report.pdf'', Setup_return ''S-report.pdf'' engine0]) \<and>
   file_cache S1 = (file_cache S0)(session_id S0 @ ''-'' @ filename report_pdf \<mapsto> engine0) \<and>
   cache_put (session_id S0 @ ''-'' @ filename report_pdf) engine0 S1 = S1 \<and>
   fst (snd (upload_file w_ok report_pdf S0)) = S1"
proof -
  have k: "session_id S0 @ ''-'' @ filename report_pdf = ''S-report.pdf''"
    by (simp add: S0_def session_state_def report_pdf_def)
  have a1: "mkdtemp w_ok = Inr ''/tmp/tmpab12cd34''"
    by (simp add: w_ok_def)
  have a2: "open_wb w_ok (path_join ''/tmp/tmpab12cd34'' (filename report_pdf)) = None"
    by (simp add: w_ok_def)
  have a3: "file_read w_ok report_pdf = Inr ''%PDF-1.7''"
    by (simp add: w_ok_def)
  have a4: "write_close w_ok (path_join ''/tmp/tmpab12cd34'' (filename report_pdf)) ''%PDF-1.7'' = None"
    by (simp add: w_ok_def)
  have a5: "print_stdout w_ok (session_id S0 @ ''-'' @ filename report_pdf) = None"
    by (simp add: w_ok_def)
  have a6: "file_cache S0 (session_id S0 @ ''-'' @ filename report_pdf) = None"
    by (simp add: S0_def session_state_def)
  have a7: "setup_llama_index w_ok ''/tmp/tmpab12cd34''
      (session_id S0 @ ''-'' @ filename report_pdf) S0 =
     (Inr engine0, S1,
      [Setup_call ''/tmp/tmpab12cd34'' ''S-report.pdf'', Setup_return ''S-report.pdf'' engine0])"
    unfolding k by (rule setup_S0)
  note r = second_cache_assignment_is_idempotent [OF a1 a2 a3 a4 a5 a6 a7]
  show ?thesis
    by (intro conjI a1 a5 a6 a7 r [THEN conjunct1]
        r [THEN conjunct2, THEN conjunct2, THEN conjunct1]
        r [THEN conjunct2, THEN conjunct2, THEN conjunct2])
qed














lemma split_sep_not_Nil: "split_sep p \<noteq> []"
  by (induction p) (auto split: list.splits)

lemma split_sep_append:
  "split_sep (a @ CHR ''/'' # b) = split_sep a @ split_sep b"
proof (induction a)
  case Nil
  show ?case by simp
next
  case (Cons c a)
  then show ?case
    using split_sep_not_Nil [of a] by (cases "split_sep a") auto
qed

lemma resolve_append:
  "resolve (a @ CHR ''/'' # b) = foldl walk (resolve a) (split_sep b)"
  by (simp add: resolve_def split_sep_append)

lemma split_sep_traversal: "split_sep ''../x.pdf'' = [''..'', ''x.pdf'']"
  by simp

lemma walk_traversal:
  "foldl walk names (split_sep ''../x.pdf'') = butlast names @ [''x.pdf'']"
  unfolding split_sep_traversal by (simp add: walk_def)

lemma resolve_trailing_sep: "resolve (a @ ''/'') = resolve a"
  using resolve_append [of a "[]"] by (simp add: walk_def)

lemma resolve_path_join_traversal:
  "resolve (path_join temp_dir ''../x.pdf'') = butlast (resolve temp_dir) @ [''x.pdf'']"
proof (cases "temp_dir = []")
  case True
  then show ?thesis
    by (simp add: path_join_def resolve_def walk_def)
next
  case False
  show ?thesis
  proof (cases "last temp_dir = CHR ''/''")
    case True
    with False obtain a where a: "temp_dir = a @ ''/''"
      by (metis append_butlast_last_id)
    have "path_join temp_dir ''../x.pdf'' = a @ CHR ''/'' # ''../x.pdf''"
      using a by (simp add: path_join_def)
    then have "resolve (path_join temp_dir ''../x.pdf'') = butlast (resolve a) @ [''x.pdf'']"
      by (simp only: resolve_append walk_traversal)
    moreover have "resolve temp_dir = resolve a"
      unfolding a by (rule resolve_trailing_sep)
    ultimately show ?thesis by simp
  next
    case no_sep: False
    have "path_join temp_dir ''../x.pdf'' = temp_dir @ CHR ''/'' # ''../x.pdf''"
      using False no_sep by (simp add: path_join_def)
    then show ?thesis
      by (simp only: resolve_append walk_traversal)
  qed
qed

lemma traversal_not_within:
  assumes "resolve temp_dir \<noteq> []" and "last (resolve temp_dir) \<noteq> ''x.pdf''"
  shows "\<not> within temp_dir (path_join temp_dir ''../x.pdf'')"
proof
  assume "within temp_dir (path_join temp_dir ''../x.pdf'')"
  then have "prefix (resolve temp_dir) (butlast (resolve temp_dir) @ [''x.pdf''])"
    by (simp only: within_def resolve_path_join_traversal)
  then obtain zs where zs: "butlast (resolve temp_dir) @ [''x.pdf''] = resolve temp_dir @ zs"
    by (auto simp: prefix_def)
  then have "length (butlast (resolve temp_dir) @ [''x.pdf'']) = length (resolve temp_dir @ zs)"
    by (rule arg_cong)
  with assms(1) have "zs = []"
    by (cases "resolve temp_dir" rule: rev_cases) auto
  with zs have "last (butlast (resolve temp_dir) @ [''x.pdf'']) = last (resolve temp_dir)"
    by simp
  with assms(2) show False by simp
qed

lemma upload_file_writes:
  assumes "mkdtemp w = Inr temp_dir"
    and "open_wb w (path_join temp_dir (filename f)) = None"
    and "file_read w f = Inr data"
  shows "Write (path_join temp_dir (filename f)) data \<in> set (snd (snd (upload_file w f s)))"
  using assms
  by (auto simp: upload_defs split: option.splits sum.splits prod.splits)

text \<open>
  C8. The upload handler joins the filename the caller sent to the path of the temporary
  directory as it is (line 99) and opens the result for writing (line 101). For the
  filename \<^verbatim>\<open>../x.pdf\<close> the bytes of the upload are written to a path that does not
  lie within the temporary directory, whatever directory was made (other than the root,
  and other than one itself named \<^verbatim>\<open>x.pdf\<close>, where the path is the directory): the
  path leads to \<^verbatim>\<open>x.pdf\<close> in the directory above.
\<close>

theorem upload_writes_outside_temporary_directory:
  assumes "filename f = ''../x.pdf''"
    and "mkdtemp w = Inr temp_dir"
    and "resolve temp_dir \<noteq> []"
    and "last (resolve temp_dir) \<noteq> ''x.pdf''"
    and "open_wb w (path_join temp_dir (filename f)) = None"
    and "file_read w f = Inr data"
    and "write_close w (path_join temp_dir (filename f)) data = None"
  shows "Write (path_join temp_dir (filename f)) data \<in> set (snd (snd (upload_file w f s))) \<and>
         \<not> within temp_dir (path_join temp_dir (filename f)) \<and>
         resolve (path_join temp_dir (filename f)) = butlast (resolve temp_dir) @ [''x.pdf'']"
proof -
  have "Write (path_join temp_dir (filename f)) data \<in> set (snd (snd (upload_file w f s)))"
    by (rule upload_file_writes [OF assms(2) assms(5) assms(6)])
  moreover have "\<not> within temp_dir (path_join temp_dir (filename f))"
    unfolding assms(1) by (rule traversal_not_within [OF assms(3) assms(4)])
  moreover have "resolve (path_join temp_dir (filename f)) =
      butlast (resolve temp_dir) @ [''x.pdf'']"
    unfolding assms(1) by (rule resolve_path_join_traversal)
  ultimately show ?thesis by blast
qed

theorem upload_writes_outside_temporary_directory_witness:
  "mkdtemp w_ok = Inr ''/tmp/tmpab12cd34'' \<and>
   resolve ''/tmp/tmpab12cd34'' = [''tmp'', ''tmpab12cd34''] \<and>
   path_join ''/tmp/tmpab12cd34'' (filename \<lparr>filename = ''../x.pdf''\<rparr>) =
     ''/tmp/tmpab12cd34/../x.pdf'' \<and>
   Write ''/tmp/tmpab12cd34/../x.pdf'' ''%PDF-1.7''
     \<in> set (snd (snd (upload_file w_ok \<lparr>filename = ''../x.pdf''\<rparr> S0))) \<and>
   \<not> within ''/tmp/tmpab12cd34'' ''/tmp/tmpab12cd34/../x.pdf'' \<and>
   resolve ''/tmp/tmpab12cd34/../x.pdf'' = [''tmp'', ''x.pdf'']"
proof -
  let ?f = "\<lparr>filename = ''../x.pdf''\<rparr>"
  have a1: "filename ?f = ''../x.pdf''" by simp
  have a2: "mkdtemp w_ok = Inr ''/tmp/tmpab12cd34''" by (simp add: w_ok_def)
  have r: "resolve ''/tmp/tmpab12cd34'' = [''tmp'', ''tmpab12cd34'']"
    by (simp add: resolve_def walk_def)
  have a3: "resolve ''/tmp/tmpab12cd34'' \<noteq> []" unfolding r by simp
  have a4: "last (resolve ''/tmp/tmpab12cd34'') \<noteq> ''x.pdf''" unfolding r by simp
  have a5: "open_wb w_ok (path_join ''/tmp/tmpab12cd34'' (filename ?f)) = None"
    by (simp add: w_ok_def)
  have a6: "file_read w_ok ?f = Inr ''%PDF-1.7''" by (simp add: w_ok_def)
  have a7: "write_close w_ok (path_join ''/tmp/tmpab12cd34'' (filename ?f)) ''%PDF-1.7'' = None"
    by (simp add: w_ok_def)
  have p: "path_join ''/tmp/tmpab12cd34'' (filename ?f) = ''/tmp/tmpab12cd34/../x.pdf''"
    by (simp add: path_join_def)
  note t = upload_writes_outside_temporary_directory [OF a1 a2 a3 a4 a5 a6 a7, of S0]
  have t1: "Write ''/tmp/tmpab12cd34/../x.pdf'' ''%PDF-1.7''
     \<in> set (snd (snd (upload_file w_ok ?f S0)))"
    using t [THEN conjunct1] unfolding p .
  have t2: "\<not> within ''/tmp/tmpab12cd34'' ''/tmp/tmpab12cd34/../x.pdf''"
    using t [THEN conjunct2, THEN conjunct1] unfolding p .
  have t3: "resolve ''/tmp/tmpab12cd34/../x.pdf'' = [''tmp'', ''x.pdf'']"
    using t [THEN conjunct2, THEN conjunct2] unfolding p r by simp
  show ?thesis
    by (intro conjI a2 r p t1 t2 t3)
qed

end
